theory Spec2Isabelle
  imports Complex_Main
begin

section \<open>Python errors and results\<close>

text \<open>
  Every \<^verbatim>\<open>raise\<close> of the notebook, of Python itself and of the tensor library is a
  value: a computation returns \<open>Inl e\<close> for the exception \<open>e\<close> and \<open>Inr v\<close> for the
  value \<open>v\<close>. Tensor entries are real numbers (the 32-bit floats of the library are
  idealised), Python's integers are \<open>int\<close>. Rounding, overflow to infinity and NaN are
  not part of the model: shapes and raised errors do not depend on them, and a
  statement about the values of entries bounds the inputs so that every intermediate
  value stays in the finite range of 32-bit floats.
\<close>

datatype error =
    NameError string
  | AttributeError string
  | ZeroDivisionError
  | AssertionError
  | ValueError
  | IndexError
  | RuntimeError

type_synonym 'a result = "error + 'a"

definition and_then :: "'a result \<Rightarrow> ('a \<Rightarrow> 'b result) \<Rightarrow> 'b result" where
  "and_then r f = (case r of Inl e \<Rightarrow> Inl e | Inr v \<Rightarrow> f v)"

text \<open>Reading a bare name in a function body: the name is looked up in the scope.\<close>

definition lookup_name :: "(string \<times> 'a) list \<Rightarrow> string \<Rightarrow> 'a result" where
  "lookup_name scope n = (case map_of scope n of None \<Rightarrow> Inl (NameError n) | Some v \<Rightarrow> Inr v)"

text \<open>Reading an attribute of a module instance (\<^verbatim>\<open>self.name\<close>).\<close>

definition getattr :: "(string \<times> 'a) list \<Rightarrow> string \<Rightarrow> 'a result" where
  "getattr attrs n = (case map_of attrs n of None \<Rightarrow> Inl (AttributeError n) | Some v \<Rightarrow> Inr v)"

text \<open>Python's \<^verbatim>\<open>a // b\<close> and \<^verbatim>\<open>math.sqrt\<close>.\<close>

definition floordiv :: "int \<Rightarrow> int \<Rightarrow> int result" where
  "floordiv a b = (if b = 0 then Inl ZeroDivisionError else Inr (a div b))"

definition math_sqrt :: "real \<Rightarrow> real result" where
  "math_sqrt v = (if v < 0 then Inl ValueError else Inr (sqrt v))"

section \<open>Tensors\<close>

text \<open>
  A tensor is its shape and its entries in row-major order, as a contiguous tensor of the
  library stores them. The operations below are the library calls the notebook makes;
  each one first decides from the shapes whether the call raises.
\<close>

record tensor =
  shape :: "nat list"
  data :: "real list"

definition numel :: "nat list \<Rightarrow> nat" where
  "numel s = prod_list s"

definition shape_of :: "tensor result \<Rightarrow> (nat list) result" where
  "shape_of r = (case r of Inl e \<Rightarrow> Inl e | Inr t \<Rightarrow> Inr (shape t))"

text \<open>\<^verbatim>\<open>x.size(i)\<close> for a non-negative \<open>i\<close>.\<close>

definition size_dim :: "tensor \<Rightarrow> nat \<Rightarrow> nat result" where
  "size_dim x i = (if i < length (shape x) then Inr (shape x ! i) else Inl IndexError)"

text \<open>The \<open>cnt\<close> consecutive rows of length \<open>n\<close> of a flat list.\<close>

definition rows :: "nat \<Rightarrow> nat \<Rightarrow> real list \<Rightarrow> real list list" where
  "rows n cnt xs = map (\<lambda>i. take n (drop (i * n) xs)) [0..<cnt]"

text \<open>Flat position of a multi-index, and the multi-index of a flat position.\<close>

fun ravel :: "nat list \<Rightarrow> nat list \<Rightarrow> nat" where
  "ravel (n # ns) (i # js) = i * prod_list ns + ravel ns js"
| "ravel _ _ = 0"

fun unravel :: "nat list \<Rightarrow> nat \<Rightarrow> nat list" where
  "unravel [] k = []"
| "unravel (n # ns) k = (k div prod_list ns) # unravel ns (k mod prod_list ns)"

definition swap_at :: "'a list \<Rightarrow> nat \<Rightarrow> nat \<Rightarrow> 'a list" where
  "swap_at xs i j = xs[i := xs ! j, j := xs ! i]"

text \<open>A dimension argument, negative ones counting from the end.\<close>

definition norm_dim :: "nat \<Rightarrow> int \<Rightarrow> nat result" where
  "norm_dim r d =
     (if - int (max 1 r) \<le> d \<and> d < int (max 1 r)
      then Inr (nat (if d < 0 then d + int (max 1 r) else d))
      else Inl IndexError)"

text \<open>\<^verbatim>\<open>x.transpose(d0, d1)\<close>, materialised (so \<^verbatim>\<open>.contiguous()\<close> is the identity).\<close>

definition transpose_tensor :: "tensor \<Rightarrow> int \<Rightarrow> int \<Rightarrow> tensor result" where
  "transpose_tensor x d0 d1 =
     and_then (norm_dim (length (shape x)) d0) (\<lambda>i.
     and_then (norm_dim (length (shape x)) d1) (\<lambda>j.
       Inr \<lparr>shape = swap_at (shape x) i j,
            data = map (\<lambda>k. data x ! ravel (shape x) (swap_at (unravel (swap_at (shape x) i j) k) i j))
                     [0..<numel (swap_at (shape x) i j)]\<rparr>))"

text \<open>
  \<^verbatim>\<open>x.view(*dims)\<close>: a dimension \<open>-1\<close> is inferred from the number of entries. The
  library refuses the inference when the other dimensions multiply to zero (the size is
  then ambiguous or impossible), and refuses any other negative dimension.
\<close>

definition infer_size :: "int list \<Rightarrow> nat \<Rightarrow> (nat list) result" where
  "infer_size dims n =
     (if list_ex (\<lambda>d. d < - 1) dims then Inl RuntimeError
      else if 1 < length (filter (\<lambda>d. d = - 1) dims) then Inl RuntimeError
      else if - 1 \<in> set dims then
        (if nat (prod_list (filter (\<lambda>d. d \<noteq> - 1) dims)) = 0 then Inl RuntimeError
         else if n mod nat (prod_list (filter (\<lambda>d. d \<noteq> - 1) dims)) = 0
         then Inr (map (\<lambda>d. if d = - 1
                              then n div nat (prod_list (filter (\<lambda>d. d \<noteq> - 1) dims))
                              else nat d) dims)
         else Inl RuntimeError)
      else if nat (prod_list dims) = n then Inr (map nat dims)
      else Inl RuntimeError)"

definition view :: "tensor \<Rightarrow> int list \<Rightarrow> tensor result" where
  "view x dims =
     and_then (infer_size dims (numel (shape x))) (\<lambda>s. Inr \<lparr>shape = s, data = data x\<rparr>)"

text \<open>
  Broadcasting: shapes are aligned at their last dimension; two sizes are compatible
  when they are equal or one of them is 1.
\<close>

fun broadcast_rev :: "nat list \<Rightarrow> nat list \<Rightarrow> (nat list) result" where
  "broadcast_rev [] ys = Inr ys"
| "broadcast_rev (x # xs) [] = Inr (x # xs)"
| "broadcast_rev (x # xs) (y # ys) =
     (if x = y then and_then (broadcast_rev xs ys) (\<lambda>r. Inr (x # r))
      else if y = 1 then and_then (broadcast_rev xs ys) (\<lambda>r. Inr (x # r))
      else if x = 1 then and_then (broadcast_rev xs ys) (\<lambda>r. Inr (y # r))
      else Inl RuntimeError)"

definition broadcast_shapes :: "nat list \<Rightarrow> nat list \<Rightarrow> (nat list) result" where
  "broadcast_shapes a b = and_then (broadcast_rev (rev a) (rev b)) (\<lambda>r. Inr (rev r))"

text \<open>The entries of \<open>x\<close> expanded to the shape \<open>s\<close> it broadcasts to.\<close>

definition expand_data :: "tensor \<Rightarrow> nat list \<Rightarrow> real list" where
  "expand_data x s =
     map (\<lambda>k. data x ! ravel (shape x)
                 (map2 (\<lambda>n i. if n = 1 then 0 else i) (shape x)
                    (drop (length s - length (shape x)) (unravel s k))))
       [0..<numel s]"

text \<open>\<^verbatim>\<open>a + b\<close> on tensors.\<close>

definition add :: "tensor \<Rightarrow> tensor \<Rightarrow> tensor result" where
  "add a b =
     and_then (broadcast_shapes (shape a) (shape b)) (\<lambda>s.
       Inr \<lparr>shape = s, data = map2 (+) (expand_data a s) (expand_data b s)\<rparr>)"

text \<open>\<^verbatim>\<open>x / c\<close> for a number \<open>c\<close>, \<^verbatim>\<open>x == c\<close> (a Boolean tensor, 1 for true), \<^verbatim>\<open>F.relu\<close>.\<close>

definition div_scalar :: "tensor \<Rightarrow> real \<Rightarrow> tensor" where
  "div_scalar x c = \<lparr>shape = shape x, data = map (\<lambda>v. v / c) (data x)\<rparr>"

definition eq_scalar :: "tensor \<Rightarrow> real \<Rightarrow> tensor" where
  "eq_scalar x c = \<lparr>shape = shape x, data = map (\<lambda>v. if v = c then 1 else 0) (data x)\<rparr>"

definition relu :: "tensor \<Rightarrow> tensor" where
  "relu x = \<lparr>shape = shape x, data = map (\<lambda>v. max 0 v) (data x)\<rparr>"

text \<open>
  \<^verbatim>\<open>x.masked_fill(mask, v)\<close>: both tensors are broadcast to their common shape, and
  the entries where the Boolean mask is true are replaced by \<open>v\<close>.
\<close>

definition masked_fill :: "tensor \<Rightarrow> tensor \<Rightarrow> real \<Rightarrow> tensor result" where
  "masked_fill x mask' v =
     and_then (broadcast_shapes (shape x) (shape mask')) (\<lambda>s.
       Inr \<lparr>shape = s,
            data = map2 (\<lambda>xv mv. if mv = 0 then xv else v) (expand_data x s) (expand_data mask' s)\<rparr>)"

text \<open>
  \<^verbatim>\<open>torch.matmul(a, b)\<close>: the last two dimensions are multiplied as matrices, the
  leading ones are broadcast. A one-dimensional operand is a row (left) or a column
  (right) whose extra dimension is dropped from the result.
\<close>

definition matmul_core :: "nat \<Rightarrow> nat \<Rightarrow> nat \<Rightarrow> real list \<Rightarrow> real list \<Rightarrow> real list" where
  "matmul_core n m p a b =
     concat (map (\<lambda>i. map (\<lambda>j. sum_list (map (\<lambda>l. a ! (i * m + l) * b ! (l * p + j)) [0..<m]))
                        [0..<p]) [0..<n])"

definition matmul_data :: "nat list \<Rightarrow> nat \<Rightarrow> nat \<Rightarrow> nat \<Rightarrow> tensor \<Rightarrow> tensor \<Rightarrow> real list" where
  "matmul_data bs n m p a b =
     concat (map (\<lambda>k. matmul_core n m p
                        (take (n * m) (drop (k * (n * m)) (expand_data a (bs @ [n, m]))))
                        (take (m * p) (drop (k * (m * p)) (expand_data b (bs @ [m, p])))))
               [0..<numel bs])"

definition matmul :: "tensor \<Rightarrow> tensor \<Rightarrow> tensor result" where
  "matmul a b =
     (if shape a \<noteq> [] \<and> shape b \<noteq> [] then
        (let sa = (if length (shape a) = 1 then 1 # shape a else shape a);
             sb = (if length (shape b) = 1 then shape b @ [1] else shape b)
         in if last sa = last (butlast sb) then
              and_then (broadcast_shapes (butlast (butlast sa)) (butlast (butlast sb))) (\<lambda>bs.
                Inr \<lparr>shape = bs @ (if length (shape a) = 1 then [] else [last (butlast sa)])
                                @ (if length (shape b) = 1 then [] else [last sb]),
                     data = matmul_data bs (last (butlast sa)) (last sa) (last sb)
                              \<lparr>shape = sa, data = data a\<rparr> \<lparr>shape = sb, data = data b\<rparr>\<rparr>)
            else Inl RuntimeError)
      else Inl RuntimeError)"

text \<open>\<^verbatim>\<open>F.softmax(x, dim=-1)\<close>.\<close>

definition softmax_row :: "real list \<Rightarrow> real list" where
  "softmax_row xs = map (\<lambda>v. exp v / sum_list (map exp xs)) xs"

definition softmax :: "tensor \<Rightarrow> tensor" where
  "softmax x =
     \<lparr>shape = shape x,
      data = concat (map softmax_row
               (rows (if shape x = [] then 1 else last (shape x)) (numel (butlast (shape x))) (data x)))\<rparr>"


section \<open>Library modules\<close>

text \<open>
  \<^verbatim>\<open>nn.Linear(in_features, out_features)\<close>. Its initial weights are drawn by the
  library; the draw is an argument of the constructor.
\<close>

record Linear =
  in_features :: nat
  out_features :: nat
  weight :: "real list list"
  bias :: "real list"

definition nn_Linear :: "(nat \<Rightarrow> nat \<Rightarrow> real) \<times> (nat \<Rightarrow> real) \<Rightarrow> int \<Rightarrow> int \<Rightarrow> Linear result" where
  "nn_Linear init n_in n_out =
     (if 0 \<le> n_in \<and> 0 \<le> n_out then
        Inr \<lparr>in_features = nat n_in, out_features = nat n_out,
             weight = map (\<lambda>r. map (fst init r) [0..<nat n_in]) [0..<nat n_out],
             bias = map (snd init) [0..<nat n_out]\<rparr>
      else Inl RuntimeError)"

definition dot :: "real list \<Rightarrow> real list \<Rightarrow> real" where
  "dot xs ys = sum_list (map2 (*) xs ys)"

definition Linear_row :: "Linear \<Rightarrow> real list \<Rightarrow> real list" where
  "Linear_row lin v = map2 (\<lambda>w b. dot v w + b) (weight lin) (bias lin)"

definition Linear_forward :: "Linear \<Rightarrow> tensor \<Rightarrow> tensor result" where
  "Linear_forward lin x =
     (if shape x \<noteq> [] \<and> last (shape x) = in_features lin then
        Inr \<lparr>shape = butlast (shape x) @ [out_features lin],
             data = concat (map (Linear_row lin)
                      (rows (in_features lin) (numel (butlast (shape x))) (data x)))\<rparr>
      else Inl RuntimeError)"

text \<open>
  \<^verbatim>\<open>nn.Dropout(p)\<close>. In training mode each call draws which entries are kept; the draw
  is an argument of the call. In evaluation mode the module is the identity.
\<close>

record Dropout =
  p_dropout :: real
  training :: bool

definition nn_Dropout :: "real \<Rightarrow> Dropout result" where
  "nn_Dropout pr =
     (if 0 \<le> pr \<and> pr \<le> 1 then Inr \<lparr>p_dropout = pr, training = True\<rparr> else Inl ValueError)"

definition Dropout_forward :: "Dropout \<Rightarrow> (nat \<Rightarrow> bool) \<Rightarrow> tensor \<Rightarrow> tensor" where
  "Dropout_forward d keep x =
     (if training d then
        \<lparr>shape = shape x,
         data = map (\<lambda>i. if keep i \<and> p_dropout d < 1 then data x ! i / (1 - p_dropout d) else 0)
                  [0..<length (data x)]\<rparr>
      else x)"

text \<open>\<^verbatim>\<open>nn.LayerNorm(normalized_shape)\<close> over the last dimension.\<close>

record LayerNorm =
  normalized_shape :: nat
  weight_ln :: "real list"
  bias_ln :: "real list"
  eps :: real

definition layer_norm_row :: "LayerNorm \<Rightarrow> real list \<Rightarrow> real list" where
  "layer_norm_row lnm v =
     map (\<lambda>i. (v ! i - sum_list v / real (length v))
               / sqrt (sum_list (map (\<lambda>a. (a - sum_list v / real (length v))\<^sup>2) v) / real (length v) + eps lnm)
               * weight_ln lnm ! i + bias_ln lnm ! i)
       [0..<length v]"

definition LayerNorm_forward :: "LayerNorm \<Rightarrow> tensor \<Rightarrow> tensor result" where
  "LayerNorm_forward lnm x =
     (if shape x \<noteq> [] \<and> last (shape x) = normalized_shape lnm then
        Inr \<lparr>shape = shape x,
             data = concat (map (layer_norm_row lnm)
                      (rows (normalized_shape lnm) (numel (butlast (shape x))) (data x)))\<rparr>
      else Inl RuntimeError)"

section \<open>PositionalEncoding\<close>

record PositionalEncoding =
  dropout_pe :: Dropout
  pe :: tensor

text \<open>
  \<^verbatim>\<open>pe[:, start::2] = src\<close> on a table of rows of width \<open>d\<close>; \<open>src\<close> has rows of
  width \<open>sc\<close> and is broadcast to the selected columns.
\<close>

definition assign_cols :: "nat \<Rightarrow> nat \<Rightarrow> nat \<Rightarrow> real list list \<Rightarrow> real list list \<Rightarrow> (real list list) result" where
  "assign_cols d start sc tbl src =
     (if sc = (d + 1 - start) div 2 \<or> sc = 1 then
        Inr (map2 (\<lambda>row srow.
               map (\<lambda>k. if start \<le> k \<and> (k - start) mod 2 = 0
                         then srow ! (if sc = 1 then 0 else (k - start) div 2)
                         else row ! k) [0..<d]) tbl src)
      else Inl RuntimeError)"

definition PositionalEncoding_init :: "int \<Rightarrow> real \<Rightarrow> int \<Rightarrow> PositionalEncoding result" where
  "PositionalEncoding_init d_model' dropout' max_len' =
     and_then (nn_Dropout dropout') (\<lambda>self_dropout.
     if 0 \<le> max_len' \<and> 0 \<le> d_model' then
       (let pe0 = replicate (nat max_len') (replicate (nat d_model') 0);
            position = map real [0..<nat max_len']
        in and_then (if d_model' = 0 then Inl ZeroDivisionError
                     else Inr (- ln 10000 / real_of_int d_model')) (\<lambda>c.
           let div_term = map (\<lambda>i. exp (real (2 * i)) * c) [0..<(nat d_model' + 1) div 2];
               angles = map (\<lambda>pos. map (\<lambda>dv. pos * dv) div_term) position
           in and_then (assign_cols (nat d_model') 0 (length div_term) pe0 (map (map sin) angles)) (\<lambda>pe1.
              and_then (assign_cols (nat d_model') 1 (length div_term) pe1 (map (map cos) angles)) (\<lambda>pe2.
                Inr \<lparr>dropout_pe = self_dropout,
                     pe = \<lparr>shape = [1, nat max_len', nat d_model'], data = concat pe2\<rparr>\<rparr>))))
     else Inl RuntimeError)"


section \<open>MultiHeadAttention\<close>

record MultiHeadAttention =
  d_model :: int
  num_heads :: int
  head_dim :: int
  W_q :: Linear
  W_k :: Linear
  W_v :: Linear
  W_o :: Linear

text \<open>
  The constructor. Its arguments are \<open>d_model'\<close> and \<open>num_heads'\<close>; the assertion reads
  the bare name \<^verbatim>\<open>head_dim\<close>, which the scope of the function (its two arguments; the
  notebook defines no global of that name) does not hold.
\<close>

definition MultiHeadAttention_init ::
  "(nat \<Rightarrow> (nat \<Rightarrow> nat \<Rightarrow> real) \<times> (nat \<Rightarrow> real)) \<Rightarrow> int \<Rightarrow> int \<Rightarrow> MultiHeadAttention result" where
  "MultiHeadAttention_init inits d_model' num_heads' =
     and_then (floordiv d_model' num_heads') (\<lambda>self_head_dim.
     and_then (lookup_name [(''d_model'', d_model'), (''num_heads'', num_heads')] ''head_dim'') (\<lambda>head_dim'.
     if head_dim' * num_heads' = d_model' then
       and_then (nn_Linear (inits 0) d_model' d_model') (\<lambda>q.
       and_then (nn_Linear (inits 1) d_model' d_model') (\<lambda>k.
       and_then (nn_Linear (inits 2) d_model' d_model') (\<lambda>v.
       and_then (nn_Linear (inits 3) d_model' d_model') (\<lambda>ow.
         Inr \<lparr>d_model = d_model', num_heads = num_heads', head_dim = self_head_dim,
              W_q = q, W_k = k, W_v = v, W_o = ow\<rparr>))))
     else Inl AssertionError))"

text \<open>
  What the constructor's assignments make of the fields: the head dimension is the
  floor quotient, and the four projections are \<open>d_model \<rightarrow> d_model\<close>.
\<close>

definition MultiHeadAttention_fields :: "MultiHeadAttention \<Rightarrow> bool" where
  "MultiHeadAttention_fields m =
     (0 \<le> d_model m \<and> head_dim m = d_model m div num_heads m
      \<and> in_features (W_q m) = nat (d_model m) \<and> out_features (W_q m) = nat (d_model m)
      \<and> in_features (W_k m) = nat (d_model m) \<and> out_features (W_k m) = nat (d_model m)
      \<and> in_features (W_v m) = nat (d_model m) \<and> out_features (W_v m) = nat (d_model m)
      \<and> in_features (W_o m) = nat (d_model m) \<and> out_features (W_o m) = nat (d_model m))"

text \<open>The locals \<^verbatim>\<open>attn_scores\<close> and \<^verbatim>\<open>attn_probs\<close> of \<^verbatim>\<open>scaled_dot_product_attention\<close>.\<close>

definition attn_scores :: "MultiHeadAttention \<Rightarrow> tensor \<Rightarrow> tensor \<Rightarrow> tensor result" where
  "attn_scores self Q K =
     and_then (math_sqrt (real_of_int (head_dim self))) (\<lambda>scale.
     and_then (transpose_tensor K (- 2) (- 1)) (\<lambda>K_t.
     and_then (matmul Q K_t) (\<lambda>qk. Inr (div_scalar qk scale))))"

definition attn_probs :: "MultiHeadAttention \<Rightarrow> tensor \<Rightarrow> tensor \<Rightarrow> tensor option \<Rightarrow> tensor result" where
  "attn_probs self Q K mask' =
     and_then (attn_scores self Q K) (\<lambda>scores.
     and_then (case mask' of None \<Rightarrow> Inr scores
               | Some mk \<Rightarrow> masked_fill scores (eq_scalar mk 0) (- 1000000000)) (\<lambda>scores'.
       Inr (softmax scores')))"

definition scaled_dot_product_attention ::
  "MultiHeadAttention \<Rightarrow> tensor \<Rightarrow> tensor \<Rightarrow> tensor \<Rightarrow> tensor option \<Rightarrow> tensor result" where
  "scaled_dot_product_attention self Q K V mask' =
     and_then (attn_probs self Q K mask') (\<lambda>probs. matmul probs V)"

definition project :: "MultiHeadAttention \<Rightarrow> tensor \<Rightarrow> Linear \<Rightarrow> tensor result" where
  "project self x linear' =
     and_then (size_dim x 0) (\<lambda>batch_size.
     and_then (Linear_forward linear' x) (\<lambda>y.
     and_then (view y [int batch_size, - 1, num_heads self, head_dim self]) (\<lambda>v.
       transpose_tensor v 1 2)))"

definition MultiHeadAttention_forward ::
  "MultiHeadAttention \<Rightarrow> tensor \<Rightarrow> tensor \<Rightarrow> tensor \<Rightarrow> tensor option \<Rightarrow> tensor result" where
  "MultiHeadAttention_forward self x_k x_q x_v mask' =
     and_then (size_dim x_q 0) (\<lambda>batch_size.
     and_then (project self x_q (W_q self)) (\<lambda>Q_proj.
     and_then (project self x_k (W_k self)) (\<lambda>K_proj.
     and_then (project self x_v (W_v self)) (\<lambda>V_proj.
     and_then (scaled_dot_product_attention self Q_proj K_proj V_proj mask') (\<lambda>attn_output.
     and_then (transpose_tensor attn_output 1 2) (\<lambda>merged.
     and_then (view merged [int batch_size, - 1, d_model self]) (\<lambda>attn_output'.
       Linear_forward (W_o self) attn_output')))))))"

section \<open>FeedForward\<close>

record FeedForward =
  linear1 :: Linear
  linear2 :: Linear
  dropout_ff :: Dropout

text \<open>
  The constructor, with arguments \<open>d_model'\<close> and \<open>d_ff'\<close>. The second layer is built
  from the bare name \<^verbatim>\<open>dff\<close>, which the scope does not hold.
\<close>

definition FeedForward_init ::
  "(nat \<Rightarrow> (nat \<Rightarrow> nat \<Rightarrow> real) \<times> (nat \<Rightarrow> real)) \<Rightarrow> int \<Rightarrow> int \<Rightarrow> FeedForward result" where
  "FeedForward_init inits d_model' d_ff' =
     and_then (nn_Linear (inits 0) d_model' d_ff') (\<lambda>l1.
     and_then (lookup_name [(''d_model'', d_model'), (''d_ff'', d_ff')] ''dff'') (\<lambda>dff.
     and_then (nn_Linear (inits 1) dff d_model') (\<lambda>l2.
     and_then (nn_Dropout (1 / 10)) (\<lambda>dr.
       Inr \<lparr>linear1 = l1, linear2 = l2, dropout_ff = dr\<rparr>))))"

definition FeedForward_forward :: "FeedForward \<Rightarrow> (nat \<Rightarrow> bool) \<Rightarrow> tensor \<Rightarrow> tensor result" where
  "FeedForward_forward self keep x =
     and_then (Linear_forward (linear1 self) x) (\<lambda>h.
       Linear_forward (linear2 self) (Dropout_forward (dropout_ff self) keep (relu h)))"

section \<open>EncoderLayer and DecoderLayer\<close>

text \<open>
  The forward passes take the draws of their dropout calls as \<open>keeps\<close>, numbered in the
  order of the calls.
\<close>

record EncoderLayer =
  self_attn_enc :: MultiHeadAttention
  ffn_enc :: FeedForward
  norm1_enc :: LayerNorm
  norm2_enc :: LayerNorm
  dropout_enc :: Dropout

definition EncoderLayer_forward ::
  "EncoderLayer \<Rightarrow> (nat \<Rightarrow> nat \<Rightarrow> bool) \<Rightarrow> tensor \<Rightarrow> tensor option \<Rightarrow> tensor result" where
  "EncoderLayer_forward self keeps x mask' =
     and_then (MultiHeadAttention_forward (self_attn_enc self) x x x None) (\<lambda>attn_output.
     and_then (add x (Dropout_forward (dropout_enc self) (keeps 0) attn_output)) (\<lambda>res1.
     and_then (LayerNorm_forward (norm1_enc self) res1) (\<lambda>norm_layer1.
     and_then (FeedForward_forward (ffn_enc self) (keeps 1) norm_layer1) (\<lambda>ffn_output.
     and_then (add norm_layer1 (Dropout_forward (dropout_enc self) (keeps 2) ffn_output)) (\<lambda>res2.
       LayerNorm_forward (norm2_enc self) res2)))))"

record DecoderLayer =
  self_attn_dec :: MultiHeadAttention
  cross_attn :: MultiHeadAttention
  ffn_dec :: FeedForward
  norm1_dec :: LayerNorm
  norm2_dec :: LayerNorm
  norm3 :: LayerNorm
  dropout_dec :: Dropout

text \<open>The attributes of a decoder layer that hold a dropout module.\<close>

definition DecoderLayer_dropouts :: "DecoderLayer \<Rightarrow> (string \<times> Dropout) list" where
  "DecoderLayer_dropouts self = [(''dropout'', dropout_dec self)]"

text \<open>The first three lines of the forward pass, and its cross-attention call.\<close>

definition DecoderLayer_norm_layer1 ::
  "DecoderLayer \<Rightarrow> (nat \<Rightarrow> nat \<Rightarrow> bool) \<Rightarrow> tensor \<Rightarrow> tensor option \<Rightarrow> tensor result" where
  "DecoderLayer_norm_layer1 self keeps x self_mask =
     and_then (MultiHeadAttention_forward (self_attn_dec self) x x x self_mask) (\<lambda>attn_output.
     and_then (add x (Dropout_forward (dropout_dec self) (keeps 0) attn_output)) (\<lambda>res1.
       LayerNorm_forward (norm1_dec self) res1))"

definition DecoderLayer_cross_attn_output ::
  "DecoderLayer \<Rightarrow> tensor \<Rightarrow> tensor \<Rightarrow> tensor option \<Rightarrow> tensor result" where
  "DecoderLayer_cross_attn_output self norm_layer1 encoder_output cross_mask =
     MultiHeadAttention_forward (cross_attn self) norm_layer1 encoder_output encoder_output cross_mask"

definition DecoderLayer_forward ::
  "DecoderLayer \<Rightarrow> (nat \<Rightarrow> nat \<Rightarrow> bool) \<Rightarrow> tensor \<Rightarrow> tensor \<Rightarrow> tensor option \<Rightarrow> tensor option \<Rightarrow> tensor result" where
  "DecoderLayer_forward self keeps x encoder_output self_mask cross_mask =
     and_then (DecoderLayer_norm_layer1 self keeps x self_mask) (\<lambda>norm_layer1.
     and_then (DecoderLayer_cross_attn_output self norm_layer1 encoder_output cross_mask) (\<lambda>cross_attn_output.
     and_then (add norm_layer1 (Dropout_forward (dropout_dec self) (keeps 1) cross_attn_output)) (\<lambda>res2.
     and_then (LayerNorm_forward (norm2_dec self) res2) (\<lambda>norm_layer2.
     and_then (FeedForward_forward (ffn_dec self) (keeps 2) norm_layer2) (\<lambda>ffn_output.
     and_then (getattr (DecoderLayer_dropouts self) ''Dropout'') (\<lambda>self_Dropout.
     and_then (add norm_layer2 (Dropout_forward self_Dropout (keeps 3) ffn_output)) (\<lambda>res3.
       LayerNorm_forward (norm3 self) res3)))))))"

section \<open>Field conditions and example instances\<close>

text \<open>
  A mask fits a score shape when broadcasting it against that shape gives that shape
  again, so that filling does not enlarge the scores.
\<close>

definition mask_fits :: "tensor option \<Rightarrow> nat list \<Rightarrow> bool" where
  "mask_fits mask' s =
     (case mask' of None \<Rightarrow> True | Some mk \<Rightarrow> broadcast_shapes s (shape mk) = Inr s)"

text \<open>
  The fields as the constructors' assignments make them: \<^verbatim>\<open>FeedForward(dm, dff)\<close>,
  and \<^verbatim>\<open>DecoderLayer(dm, nh)\<close> (whose feed-forward takes the default inner size 2048).
\<close>

definition FeedForward_fields :: "FeedForward \<Rightarrow> nat \<Rightarrow> nat \<Rightarrow> bool" where
  "FeedForward_fields self dm dff =
     (in_features (linear1 self) = dm \<and> out_features (linear1 self) = dff
      \<and> in_features (linear2 self) = dff \<and> out_features (linear2 self) = dm)"

definition DecoderLayer_fields :: "DecoderLayer \<Rightarrow> int \<Rightarrow> int \<Rightarrow> bool" where
  "DecoderLayer_fields self dm nh =
     (MultiHeadAttention_fields (self_attn_dec self)
      \<and> d_model (self_attn_dec self) = dm \<and> num_heads (self_attn_dec self) = nh
      \<and> MultiHeadAttention_fields (cross_attn self)
      \<and> d_model (cross_attn self) = dm \<and> num_heads (cross_attn self) = nh
      \<and> FeedForward_fields (ffn_dec self) (nat dm) 2048
      \<and> normalized_shape (norm1_dec self) = nat dm
      \<and> normalized_shape (norm2_dec self) = nat dm
      \<and> normalized_shape (norm3 self) = nat dm)"

text \<open>Small instances with \<open>d_model = 2\<close> and one head, for the concrete evaluations.\<close>

definition example_linear :: "nat \<Rightarrow> nat \<Rightarrow> Linear" where
  "example_linear n_in n_out =
     \<lparr>in_features = n_in, out_features = n_out,
      weight = replicate n_out (replicate n_in 1), bias = replicate n_out 0\<rparr>"

definition example_mha :: MultiHeadAttention where
  "example_mha =
     \<lparr>d_model = 2, num_heads = 1, head_dim = 2,
      W_q = example_linear 2 2, W_k = example_linear 2 2,
      W_v = example_linear 2 2, W_o = example_linear 2 2\<rparr>"

definition example_norm :: LayerNorm where
  "example_norm = \<lparr>normalized_shape = 2, weight_ln = [1, 1], bias_ln = [0, 0], eps = 1 / 100000\<rparr>"

definition example_decoder :: DecoderLayer where
  "example_decoder =
     \<lparr>self_attn_dec = example_mha, cross_attn = example_mha,
      ffn_dec = \<lparr>linear1 = example_linear 2 2048, linear2 = example_linear 2048 2,
                 dropout_ff = \<lparr>p_dropout = 1 / 10, training = False\<rparr>\<rparr>,
      norm1_dec = example_norm, norm2_dec = example_norm, norm3 = example_norm,
      dropout_dec = \<lparr>p_dropout = 1 / 10, training = False\<rparr>\<rparr>"




section \<open>Results and shapes\<close>

lemma and_then_Inl [simp]: "and_then (Inl e) f = Inl e"
  by (simp add: and_then_def)

lemma and_then_Inr [simp]: "and_then (Inr v) f = f v"
  by (simp add: and_then_def)

lemma shape_of_Inr [simp]: "shape_of (Inr t) = Inr (shape t)"
  by (simp add: shape_of_def)

lemma shape_of_Inl [simp]: "shape_of (Inl e) = Inl e"
  by (simp add: shape_of_def)

lemma shape_of_eq_Inr: "shape_of r = Inr s \<longleftrightarrow> (\<exists>y. r = Inr y \<and> shape y = s)"
  by (cases r) auto

lemma shape_of_and_then:
  assumes "shape_of r = Inr s" and "\<And>y. shape y = s \<Longrightarrow> shape_of (f y) = R"
  shows "shape_of (and_then r f) = R"
  using assms by (auto simp: shape_of_eq_Inr)

lemma size_dim_0: "shape x = b # s \<Longrightarrow> size_dim x 0 = Inr b"
  by (simp add: size_dim_def)


lemma div_scalar_shape [simp]: "shape (div_scalar x c) = shape x"
  by (simp add: div_scalar_def)

lemma softmax_shape [simp]: "shape (softmax x) = shape x"
  by (simp add: softmax_def)

lemma eq_scalar_shape [simp]: "shape (eq_scalar x c) = shape x"
  by (simp add: eq_scalar_def)

lemma relu_shape [simp]: "shape (relu x) = shape x"
  by (simp add: relu_def)

lemma Dropout_forward_shape [simp]: "shape (Dropout_forward d keep x) = shape x"
  by (simp add: Dropout_forward_def)

lemma Linear_forward_shape:
  "shape x = bs @ [in_features lin] \<Longrightarrow> shape_of (Linear_forward lin x) = Inr (bs @ [out_features lin])"
  by (simp add: Linear_forward_def)

lemma Linear_forward_shape3:
  "shape x = [b, l, d] \<Longrightarrow> in_features lin = d \<Longrightarrow>
   shape_of (Linear_forward lin x) = Inr [b, l, out_features lin]"
  using Linear_forward_shape [of x "[b, l]" lin] by simp

lemma LayerNorm_forward_shape3:
  "shape x = [b, l, d] \<Longrightarrow> normalized_shape lnm = d \<Longrightarrow>
   shape_of (LayerNorm_forward lnm x) = Inr [b, l, d]"
  by (simp add: LayerNorm_forward_def)

text \<open>Splitting the model dimension into heads, and merging the heads again.\<close>

lemma view_split_shape:
  assumes "shape y = [b, l, d]" "0 < b" "0 < h" "0 < e" "nat (h * e) = d"
  shows "shape_of (view y [int b, - 1, h, e]) = Inr [b, l, nat h, nat e]"
proof -
  have d: "d = nat h * nat e" using assms by (simp add: nat_mult_distrib)
  have k: "nat (int b * (h * e)) = b * d" using assms by (simp add: nat_mult_distrib)
  have pos: "b * d > 0" using assms d by simp
  have m: "(b * l * d) mod (b * d) = 0" by (simp add: mult.assoc mult.left_commute)
  have "b * l * d = l * (b * d)" by (simp add: mult.assoc mult.left_commute)
  then have dv: "(b * l * d) div (b * d) = l" using pos by simp
  show ?thesis using assms k pos m dv
    by (simp add: view_def infer_size_def numel_def)
qed

lemma view_merge_shape:
  assumes "shape y = [b, l, h, e]" "0 < b" "0 < h * e"
  shows "shape_of (view y [int b, - 1, int (h * e)]) = Inr [b, l, h * e]"
proof -
  have k: "nat (int b * int (h * e)) = b * (h * e)" by (simp add: nat_mult_distrib)
  have pos: "b * (h * e) > 0" using assms by simp
  have m: "(b * l * h * e) mod (b * (h * e)) = 0" by (simp add: mult.assoc mult.left_commute)
  have "b * l * h * e = l * (b * (h * e))" by (simp add: mult.assoc mult.left_commute)
  then have dv: "(b * l * h * e) div (b * (h * e)) = l" using pos by simp
  have ne: "int (h * e) \<noteq> - 1" by linarith
  show ?thesis using assms k pos m dv ne
    by (simp add: view_def infer_size_def numel_def del: of_nat_mult)
qed

lemma transpose_12_shape:
  "shape v = [b, l, h, e] \<Longrightarrow> shape_of (transpose_tensor v 1 2) = Inr [b, h, l, e]"
  by (simp add: transpose_tensor_def norm_dim_def swap_at_def)

lemma transpose_last_shape:
  "shape v = [b, h, l, e] \<Longrightarrow> shape_of (transpose_tensor v (- 2) (- 1)) = Inr [b, h, e, l]"
  by (simp add: transpose_tensor_def norm_dim_def swap_at_def)

text \<open>Broadcasting a shape against itself, and the shapes of products and sums.\<close>

lemma broadcast_rev_same: "broadcast_rev xs xs = Inr xs"
  by (induction xs) simp_all

lemma broadcast_shapes_same: "broadcast_shapes s s = Inr s"
  by (simp add: broadcast_shapes_def broadcast_rev_same)

lemma add_shape_same: "shape a = s \<Longrightarrow> shape c = s \<Longrightarrow> shape_of (add a c) = Inr s"
  by (simp add: add_def broadcast_shapes_same)

lemma masked_fill_shape:
  "broadcast_shapes (shape x) (shape mk) = Inr s \<Longrightarrow> shape_of (masked_fill x mk v) = Inr s"
  by (simp add: masked_fill_def)

lemma matmul_shape4_bc:
  assumes "shape a = [b1, h1, n, m]" "shape c = [b2, h2, m, p]"
    and "broadcast_shapes [b1, h1] [b2, h2] = Inr bs"
  shows "shape_of (matmul a c) = Inr (bs @ [n, p])"
  using assms by (simp add: matmul_def)

lemma matmul_shape4:
  assumes "shape a = [b, h, n, m]" "shape c = [b, h, m, p]"
  shows "shape_of (matmul a c) = Inr [b, h, n, p]"
  using matmul_shape4_bc [OF assms broadcast_shapes_same] by simp

lemma matmul_shape4_mismatch:
  assumes "shape a = [b, h, n, m]" "shape c = [b', h', m', p]" "m \<noteq> m'"
  shows "matmul a c = Inl RuntimeError"
  using assms by (simp add: matmul_def)

section \<open>Shapes through the attention module\<close>

lemma head_dims_pos:
  assumes "0 < num_heads m" "0 < d_model m" "head_dim m * num_heads m = d_model m"
  shows "0 < head_dim m" and "nat (num_heads m) * nat (head_dim m) = nat (d_model m)"
    and "int (nat (num_heads m) * nat (head_dim m)) = d_model m"
proof -
  show e: "0 < head_dim m" using assms by (metis mult.commute zero_less_mult_pos)
  show "nat (num_heads m) * nat (head_dim m) = nat (d_model m)"
    using assms e by (metis mult.commute nat_mult_distrib order_less_imp_le)
  then show "int (nat (num_heads m) * nat (head_dim m)) = d_model m"
    using assms by simp
qed

lemma project_shape:
  assumes "0 < num_heads m" "0 < d_model m" "head_dim m * num_heads m = d_model m"
    and "shape x = [b, l, nat (d_model m)]" "0 < b"
    and "in_features lin = nat (d_model m)" "out_features lin = nat (d_model m)"
  shows "shape_of (project m x lin) = Inr [b, nat (num_heads m), l, nat (head_dim m)]"
proof -
  note hp = head_dims_pos [OF assms(1-3)]
  have nn: "nat (num_heads m * head_dim m) = nat (d_model m)"
    using assms(3) by (simp add: mult.commute)
  have 1: "shape_of (Linear_forward lin x) = Inr [b, l, nat (d_model m)]"
    using Linear_forward_shape3 [OF assms(4) assms(6)] assms(7) by simp
  show ?thesis
    unfolding project_def size_dim_0 [OF assms(4)] and_then_Inr
    apply (rule shape_of_and_then [OF 1])
    apply (rule shape_of_and_then [OF view_split_shape])
         apply assumption
        apply (rule assms(5))
       apply (rule assms(1))
      apply (rule hp(1))
     apply (rule nn)
    apply (erule transpose_12_shape)
    done
qed

lemma project_batch0:
  assumes "shape x = [0, l, d]" "in_features lin = d"
  shows "project m x lin = Inl RuntimeError"
proof -
  obtain y where y: "Linear_forward lin x = Inr y"
    using Linear_forward_shape3 [OF assms] by (auto simp: shape_of_eq_Inr)
  show ?thesis
    by (simp add: project_def size_dim_0 [OF assms(1)] y view_def infer_size_def)
qed

lemma attn_scores_shape_bc:
  assumes "0 \<le> head_dim m" "shape Q = [b1, h1, lq, e]" "shape K = [b2, h2, lk, e]"
    and "broadcast_shapes [b1, h1] [b2, h2] = Inr bs"
  shows "shape_of (attn_scores m Q K) = Inr (bs @ [lq, lk])"
proof -
  have s: "math_sqrt (real_of_int (head_dim m)) = Inr (sqrt (real_of_int (head_dim m)))"
    using assms(1) by (simp add: math_sqrt_def)
  obtain kt where kt: "transpose_tensor K (- 2) (- 1) = Inr kt" "shape kt = [b2, h2, e, lk]"
    using transpose_last_shape [OF assms(3)] by (auto simp: shape_of_eq_Inr)
  obtain qk where qk: "matmul Q kt = Inr qk" "shape qk = bs @ [lq, lk]"
    using matmul_shape4_bc [OF assms(2) kt(2) assms(4)] by (auto simp: shape_of_eq_Inr)
  show ?thesis
    by (simp add: attn_scores_def s kt(1) qk)
qed

lemma attn_scores_shape:
  assumes "0 \<le> head_dim m" "shape Q = [b, h, lq, e]" "shape K = [b, h, lk, e]"
  shows "shape_of (attn_scores m Q K) = Inr [b, h, lq, lk]"
  using attn_scores_shape_bc [OF assms broadcast_shapes_same] by simp

lemma attn_probs_shape:
  assumes "0 \<le> head_dim m" "shape Q = [b, h, lq, e]" "shape K = [b, h, lk, e]"
    and "mask_fits mask' [b, h, lq, lk]"
  shows "shape_of (attn_probs m Q K mask') = Inr [b, h, lq, lk]"
proof -
  obtain sc where sc: "attn_scores m Q K = Inr sc" "shape sc = [b, h, lq, lk]"
    using attn_scores_shape [OF assms(1-3)] by (auto simp: shape_of_eq_Inr)
  show ?thesis
  proof (cases mask')
    case None
    then show ?thesis by (simp add: attn_probs_def sc)
  next
    case (Some mk)
    then have "broadcast_shapes (shape sc) (shape (eq_scalar mk 0)) = Inr [b, h, lq, lk]"
      using assms(4) sc(2) by (simp add: mask_fits_def)
    then obtain f where "masked_fill sc (eq_scalar mk 0) (- 1000000000) = Inr f"
      "shape f = [b, h, lq, lk]"
      using masked_fill_shape by (fastforce simp: shape_of_eq_Inr)
    then show ?thesis using Some by (simp add: attn_probs_def sc(1))
  qed
qed

lemma sdpa_shape:
  assumes "0 \<le> head_dim m" "shape Q = [b, h, lq, e]" "shape K = [b, h, lk, e]"
    and "shape V = [b, h, lk, e]" and "mask_fits mask' [b, h, lq, lk]"
  shows "shape_of (scaled_dot_product_attention m Q K V mask') = Inr [b, h, lq, e]"
  unfolding scaled_dot_product_attention_def
  apply (rule shape_of_and_then [OF attn_probs_shape [OF assms(1-3) assms(5)]])
  apply (erule matmul_shape4 [OF _ assms(4)])
  done

lemma sdpa_mismatch:
  assumes "0 \<le> head_dim m" "shape Q = [b, h, lq, e]" "shape K = [b, h, lk, e]"
    and "shape V = [b, h, lv, e]" "lk \<noteq> lv" and "mask_fits mask' [b, h, lq, lk]"
  shows "scaled_dot_product_attention m Q K V mask' = Inl RuntimeError"
proof -
  obtain p where p: "attn_probs m Q K mask' = Inr p" "shape p = [b, h, lq, lk]"
    using attn_probs_shape [OF assms(1-3) assms(6)] by (auto simp: shape_of_eq_Inr)
  show ?thesis
    by (simp add: scaled_dot_product_attention_def p(1)
        matmul_shape4_mismatch [OF p(2) assms(4) assms(5)])
qed

lemma fields_io:
  assumes "MultiHeadAttention_fields m"
  shows "in_features (W_q m) = nat (d_model m)" "out_features (W_q m) = nat (d_model m)"
    "in_features (W_k m) = nat (d_model m)" "out_features (W_k m) = nat (d_model m)"
    "in_features (W_v m) = nat (d_model m)" "out_features (W_v m) = nat (d_model m)"
    "in_features (W_o m) = nat (d_model m)" "out_features (W_o m) = nat (d_model m)"
  using assms by (simp_all add: MultiHeadAttention_fields_def)

lemma fields_dvd:
  assumes "MultiHeadAttention_fields m" "num_heads m dvd d_model m"
  shows "head_dim m * num_heads m = d_model m"
  using assms by (simp add: MultiHeadAttention_fields_def)

lemma forward_shape:
  assumes f: "MultiHeadAttention_fields m"
    and h: "0 < num_heads m" "0 < d_model m" "head_dim m * num_heads m = d_model m"
    and k: "shape x_k = [b, lk, nat (d_model m)]"
    and q: "shape x_q = [b, lq, nat (d_model m)]"
    and v: "shape x_v = [b, lk, nat (d_model m)]"
    and b: "0 < b"
    and mk: "mask_fits mask' [b, nat (num_heads m), lq, lk]"
  shows "shape_of (MultiHeadAttention_forward m x_k x_q x_v mask') = Inr [b, lq, nat (d_model m)]"
proof -
  note hp = head_dims_pos [OF h]
  note io = fields_io [OF f]
  have e0: "0 \<le> head_dim m" using hp(1) by simp
  have pos: "0 < nat (num_heads m) * nat (head_dim m)" using hp(2) h(2) by simp
  have vm: "\<And>y. shape y = [b, lq, nat (num_heads m), nat (head_dim m)] \<Longrightarrow>
     shape_of (view y [int b, - 1, d_model m]) = Inr [b, lq, nat (d_model m)]"
    using view_merge_shape [OF _ b pos] hp(2,3) by simp
  show ?thesis
    unfolding MultiHeadAttention_forward_def size_dim_0 [OF q] and_then_Inr
    apply (rule shape_of_and_then [OF project_shape [OF h q b io(1,2)]])
    apply (rule shape_of_and_then [OF project_shape [OF h k b io(3,4)]])
    apply (rule shape_of_and_then [OF project_shape [OF h v b io(5,6)]])
    apply (rule shape_of_and_then [OF sdpa_shape [OF e0 _ _ _ mk]])
       apply assumption+
    apply (rule shape_of_and_then [OF transpose_12_shape])
     apply assumption
    apply (rule shape_of_and_then [OF vm])
     apply assumption
    apply (rule Linear_forward_shape3 [where lin = "W_o m", unfolded io(8)])
     apply assumption
    apply (rule io(7))
    done
qed

lemma forward_key_value_mismatch:
  assumes f: "MultiHeadAttention_fields m"
    and h: "0 < num_heads m" "0 < d_model m" "head_dim m * num_heads m = d_model m"
    and k: "shape x_k = [b, lk, nat (d_model m)]"
    and q: "shape x_q = [b, lq, nat (d_model m)]"
    and v: "shape x_v = [b, lv, nat (d_model m)]"
    and b: "0 < b" and ne: "lk \<noteq> lv"
    and mk: "mask_fits mask' [b, nat (num_heads m), lq, lk]"
  shows "MultiHeadAttention_forward m x_k x_q x_v mask' = Inl RuntimeError"
proof -
  note hp = head_dims_pos [OF h]
  note io = fields_io [OF f]
  have e0: "0 \<le> head_dim m" using hp(1) by simp
  obtain Q where Q: "project m x_q (W_q m) = Inr Q"
    "shape Q = [b, nat (num_heads m), lq, nat (head_dim m)]"
    using project_shape [OF h q b io(1,2)] by (auto simp: shape_of_eq_Inr)
  obtain K where K: "project m x_k (W_k m) = Inr K"
    "shape K = [b, nat (num_heads m), lk, nat (head_dim m)]"
    using project_shape [OF h k b io(3,4)] by (auto simp: shape_of_eq_Inr)
  obtain V where V: "project m x_v (W_v m) = Inr V"
    "shape V = [b, nat (num_heads m), lv, nat (head_dim m)]"
    using project_shape [OF h v b io(5,6)] by (auto simp: shape_of_eq_Inr)
  show ?thesis
    by (simp add: MultiHeadAttention_forward_def size_dim_0 [OF q] Q(1) K(1) V(1)
        sdpa_mismatch [OF e0 Q(2) K(2) V(2) ne mk])
qed

lemma forward_batch0:
  assumes f: "MultiHeadAttention_fields m" and q: "shape x_q = [0, l, nat (d_model m)]"
  shows "MultiHeadAttention_forward m x_k x_q x_v mask' = Inl RuntimeError"
  by (simp add: MultiHeadAttention_forward_def size_dim_0 [OF q]
      project_batch0 [OF q fields_io(1) [OF f]])

section \<open>Shapes through the feed-forward network and the decoder layer\<close>

lemma FeedForward_forward_shape:
  assumes "FeedForward_fields ff dm dff" "shape x = [b, l, dm]"
  shows "shape_of (FeedForward_forward ff keep x) = Inr [b, l, dm]"
proof -
  have io: "in_features (linear1 ff) = dm" "out_features (linear1 ff) = dff"
    "in_features (linear2 ff) = dff" "out_features (linear2 ff) = dm"
    using assms(1) by (simp_all add: FeedForward_fields_def)
  show ?thesis
    unfolding FeedForward_forward_def
    apply (rule shape_of_and_then [OF Linear_forward_shape3 [OF assms(2) io(1)]])
    apply (rule Linear_forward_shape3 [where lin = "linear2 ff", unfolded io(4)])
     apply (simp add: io(2))
    apply (rule io(3))
    done
qed

lemma DecoderLayer_norm_layer1_shape:
  assumes "DecoderLayer_fields dec dm nh" "0 < nh" "0 < dm" "nh dvd dm"
    and "shape x = [b, l, nat dm]" "0 < b" "mask_fits self_mask [b, nat nh, l, l]"
  shows "shape_of (DecoderLayer_norm_layer1 dec keeps x self_mask) = Inr [b, l, nat dm]"
proof -
  have f: "MultiHeadAttention_fields (self_attn_dec dec)" "d_model (self_attn_dec dec) = dm"
    "num_heads (self_attn_dec dec) = nh" "normalized_shape (norm1_dec dec) = nat dm"
    using assms(1) by (simp_all add: DecoderLayer_fields_def)
  have hd: "head_dim (self_attn_dec dec) * num_heads (self_attn_dec dec) = d_model (self_attn_dec dec)"
    using fields_dvd [OF f(1)] assms(4) f by simp
  have a: "shape_of (MultiHeadAttention_forward (self_attn_dec dec) x x x self_mask) = Inr [b, l, nat dm]"
    using forward_shape [OF f(1) _ _ hd, where x_k = x and x_q = x and x_v = x and b = b and lk = l
        and lq = l and mask' = self_mask] assms f by simp
  show ?thesis
    unfolding DecoderLayer_norm_layer1_def
    apply (rule shape_of_and_then [OF a])
    apply (rule shape_of_and_then [OF add_shape_same [OF assms(5)]])
     apply simp
    apply (erule LayerNorm_forward_shape3 [OF _ f(4)])
    done
qed

lemma getattr_Dropout:
  "getattr (DecoderLayer_dropouts dec) ''Dropout'' = Inl (AttributeError ''Dropout'')"
  by (simp add: getattr_def DecoderLayer_dropouts_def)

text \<open>
  With target and source of the same length the decoder layer gets as far as its last
  residual step, where reading \<^verbatim>\<open>self.Dropout\<close> raises.
\<close>

lemma DecoderLayer_forward_AttributeError:
  assumes "DecoderLayer_fields dec dm nh" "0 < nh" "0 < dm" "nh dvd dm"
    and "shape x = [b, l, nat dm]" "shape encoder_output = [b, l, nat dm]" "0 < b"
    and "mask_fits self_mask [b, nat nh, l, l]" "mask_fits cross_mask [b, nat nh, l, l]"
  shows "DecoderLayer_forward dec keeps x encoder_output self_mask cross_mask
         = Inl (AttributeError ''Dropout'')"
proof -
  have f: "MultiHeadAttention_fields (cross_attn dec)" "d_model (cross_attn dec) = dm"
    "num_heads (cross_attn dec) = nh" "normalized_shape (norm2_dec dec) = nat dm"
    "FeedForward_fields (ffn_dec dec) (nat dm) 2048"
    using assms(1) by (simp_all add: DecoderLayer_fields_def)
  have hd: "head_dim (cross_attn dec) * num_heads (cross_attn dec) = d_model (cross_attn dec)"
    using fields_dvd [OF f(1)] assms(4) f by simp
  obtain x1 where x1: "DecoderLayer_norm_layer1 dec keeps x self_mask = Inr x1"
    "shape x1 = [b, l, nat dm]"
    using DecoderLayer_norm_layer1_shape [OF assms(1-5) assms(7) assms(8), of keeps]
    by (auto simp: shape_of_eq_Inr)
  obtain c where c: "DecoderLayer_cross_attn_output dec x1 encoder_output cross_mask = Inr c"
    "shape c = [b, l, nat dm]"
    unfolding DecoderLayer_cross_attn_output_def
    using forward_shape [OF f(1) _ _ hd, where x_k = x1 and x_q = encoder_output
        and x_v = encoder_output and b = b and lk = l and lq = l and mask' = cross_mask]
      assms x1(2) f by (auto simp: shape_of_eq_Inr)
  obtain r2 where r2: "add x1 (Dropout_forward (dropout_dec dec) (keeps 1) c) = Inr r2"
    "shape r2 = [b, l, nat dm]"
    using add_shape_same [OF x1(2), of "Dropout_forward (dropout_dec dec) (keeps 1) c"] c(2)
    by (auto simp: shape_of_eq_Inr)
  obtain x2 where x2: "LayerNorm_forward (norm2_dec dec) r2 = Inr x2" "shape x2 = [b, l, nat dm]"
    using LayerNorm_forward_shape3 [OF r2(2) f(4)] by (auto simp: shape_of_eq_Inr)
  obtain ff where ff: "FeedForward_forward (ffn_dec dec) (keeps 2) x2 = Inr ff"
    using FeedForward_forward_shape [OF f(5) x2(2)] by (auto simp: shape_of_eq_Inr)
  show ?thesis
    using x1(1) c(1) r2(1) x2(1) ff by (simp add: DecoderLayer_forward_def getattr_Dropout)
qed

lemma example_mha_fields: "MultiHeadAttention_fields example_mha"
  by (simp add: MultiHeadAttention_fields_def example_mha_def example_linear_def)

lemma example_decoder_fields: "DecoderLayer_fields example_decoder 2 1"
  by (simp add: DecoderLayer_fields_def example_decoder_def example_mha_fields FeedForward_fields_def
      example_linear_def example_norm_def)
    (simp add: example_mha_def)

section \<open>Entries: indices, slices and sums\<close>


lemma length_expand_data [simp]: "length (expand_data x s) = numel s"
  by (simp add: expand_data_def)
















lemma ln_10000_less: "ln (10000::real) < 16"
proof -
  have "(13::real) \<le> exp 4"
    using exp_lower_Taylor_quadratic [of "4::real"] by simp
  then have "(13::real) ^ 4 \<le> exp 4 ^ 4"
    by (intro power_mono) simp_all
  also have "exp (4::real) ^ 4 = exp 16"
    by (simp add: exp_of_nat_mult [symmetric])
  finally have "(10000::real) < exp 16" by simp
  then have "ln (10000::real) < ln (exp 16)"
    by (subst ln_less_cancel_iff) simp_all
  then show ?thesis by simp
qed

section \<open>The softmax of a masked row\<close>


lemma length_softmax_row [simp]: "length (softmax_row xs) = length xs"
  by (simp add: softmax_row_def)







section \<open>Bounded queries and keys give bounded scores\<close>














section \<open>The constructors\<close>

text \<open>
  C2. Constructing a MultiHeadAttention is claimed to succeed whenever d_model is
  evenly divisible by num_heads. The constructor returns for no arguments: for
  num_heads = 0 the floor division raises ZeroDivisionError, and otherwise the
  assertion reads the unbound name head_dim and raises NameError; so it does for
  d_model = 512 and num_heads = 8.
\<close>

theorem MultiHeadAttention_init_raises:
  "MultiHeadAttention_init inits d_model' num_heads'
     = Inl (if num_heads' = 0 then ZeroDivisionError else NameError ''head_dim'')
   \<and> MultiHeadAttention_init inits 512 8 = Inl (NameError ''head_dim'')"
  by (simp add: MultiHeadAttention_init_def floordiv_def lookup_name_def)

text \<open>
  C5. Constructing a FeedForward is claimed to succeed for any d_model and d_ff. The
  constructor returns for no arguments: with non-negative sizes the second affine layer
  is built from the unbound name dff, which raises NameError (with a negative size the
  first layer is refused before); so it does for d_model = 512 and d_ff = 2048.
\<close>

theorem FeedForward_init_raises:
  "FeedForward_init inits d_model' d_ff'
     = Inl (if 0 \<le> d_model' \<and> 0 \<le> d_ff' then NameError ''dff'' else RuntimeError)
   \<and> FeedForward_init inits 512 2048 = Inl (NameError ''dff'')"
  by (simp add: FeedForward_init_def nn_Linear_def lookup_name_def)

section \<open>MultiHeadAttention.forward\<close>

text \<open>
  C6, as claimed: for every batch size B, self-attention on an input of shape
  (B, L, d_model) returns a tensor of shape (B, L, d_model). For the empty batch B = 0
  the forward pass raises instead: the view that splits the heads cannot infer its
  second dimension from a tensor without entries.
\<close>

theorem self_attention_empty_batch:
  "MultiHeadAttention_forward example_mha \<lparr>shape = [0, 3, 2], data = []\<rparr>
     \<lparr>shape = [0, 3, 2], data = []\<rparr> \<lparr>shape = [0, 3, 2], data = []\<rparr> None = Inl RuntimeError"
  using forward_batch0 [OF example_mha_fields, of "\<lparr>shape = [0, 3, 2], data = []\<rparr>" 3]
  by (simp add: example_mha_def)

text \<open>
  C6, amended: for every batch size B of at least 1, every sequence length L, every
  d_model of at least 1 and every num_heads of at least 1 that divides d_model,
  MultiHeadAttention.forward applied to an input of shape (B, L, d_model) as key, query
  and value, with no mask or with a mask that broadcasts to the score shape
  (B, num_heads, L, L), returns a tensor of shape (B, L, d_model).
\<close>

theorem self_attention_shape:
  assumes "MultiHeadAttention_fields m" "0 < num_heads m" "0 < d_model m"
    and "num_heads m dvd d_model m"
    and "shape x = [b, l, nat (d_model m)]" "0 < b"
    and "mask_fits mask' [b, nat (num_heads m), l, l]"
  shows "shape_of (MultiHeadAttention_forward m x x x mask') = Inr [b, l, nat (d_model m)]"
  using forward_shape [OF assms(1-3) fields_dvd [OF assms(1,4)] assms(5) assms(5) assms(5)
      assms(6) assms(7)] .

theorem self_attention_shape_witness:
  "MultiHeadAttention_fields example_mha \<and> num_heads example_mha dvd d_model example_mha
   \<and> shape_of (MultiHeadAttention_forward example_mha
         \<lparr>shape = [1, 3, 2], data = [1, 2, 3, 4, 5, 6]\<rparr>
         \<lparr>shape = [1, 3, 2], data = [1, 2, 3, 4, 5, 6]\<rparr>
         \<lparr>shape = [1, 3, 2], data = [1, 2, 3, 4, 5, 6]\<rparr> None) = Inr [1, 3, 2]"
  using self_attention_shape [OF example_mha_fields,
      of "\<lparr>shape = [1, 3, 2], data = [1, 2, 3, 4, 5, 6]\<rparr>" 1 3 None]
  by (simp add: example_mha_fields mask_fits_def) (simp add: example_mha_def)

text \<open>
  C10, as claimed: the inputs are taken in the order key, query, value, and for inputs
  whose sequence lengths differ the output has the sequence length of the second
  argument. With a query of shape (1, 1, 2) and key and value of shape (2, 3, 2) the
  batch dimensions broadcast, and the final view folds the two batches into the sequence
  dimension: the output has shape (1, 2, 2), sequence length 2 and not 1.
\<close>

theorem forward_batch_broadcast:
  "shape_of (MultiHeadAttention_forward example_mha
     \<lparr>shape = [2, 3, 2], data = [1, 0, 0, 1, 1, 1, 1, 0, 0, 1, 1, 1]\<rparr>
     \<lparr>shape = [1, 1, 2], data = [1, 0]\<rparr>
     \<lparr>shape = [2, 3, 2], data = [1, 0, 0, 1, 1, 1, 1, 0, 0, 1, 1, 1]\<rparr> None) = Inr [1, 2, 2]"
proof -
  let ?k = "\<lparr>shape = [2, 3, 2], data = [1, 0, 0, 1, 1, 1, 1, 0, 0, 1, 1, 1]\<rparr>"
  let ?q = "\<lparr>shape = [1, 1, 2], data = [1, 0]\<rparr>"
  have h: "0 < num_heads example_mha" "0 < d_model example_mha"
    "head_dim example_mha * num_heads example_mha = d_model example_mha"
    "nat (d_model example_mha) = 2" "nat (num_heads example_mha) = 1" "nat (head_dim example_mha) = 2"
    "0 \<le> head_dim example_mha" "d_model example_mha = 2"
    by (simp_all add: example_mha_def)
  have io: "in_features (W_q example_mha) = 2" "out_features (W_q example_mha) = 2"
    "in_features (W_k example_mha) = 2" "out_features (W_k example_mha) = 2"
    "in_features (W_v example_mha) = 2" "out_features (W_v example_mha) = 2"
    "in_features (W_o example_mha) = 2" "out_features (W_o example_mha) = 2"
    by (simp_all add: example_mha_def example_linear_def)
  obtain Q where Q: "project example_mha ?q (W_q example_mha) = Inr Q" "shape Q = [1, 1, 1, 2]"
    using project_shape [OF h(1-3), of ?q 1 1 "W_q example_mha"] h io
    by (auto simp: shape_of_eq_Inr)
  obtain K where K: "project example_mha ?k (W_k example_mha) = Inr K" "shape K = [2, 1, 3, 2]"
    using project_shape [OF h(1-3), of ?k 2 3 "W_k example_mha"] h io
    by (auto simp: shape_of_eq_Inr)
  obtain V where V: "project example_mha ?k (W_v example_mha) = Inr V" "shape V = [2, 1, 3, 2]"
    using project_shape [OF h(1-3), of ?k 2 3 "W_v example_mha"] h io
    by (auto simp: shape_of_eq_Inr)
  have bc: "broadcast_shapes [1, 1] [2, 1] = Inr [2, 1]"
    by (simp add: broadcast_shapes_def)
  obtain sc where sc: "attn_scores example_mha Q K = Inr sc" "shape sc = [2, 1, 1, 3]"
    using attn_scores_shape_bc [OF h(7) Q(2) K(2) bc] by (auto simp: shape_of_eq_Inr)
  obtain a where a: "matmul (softmax sc) V = Inr a" "shape a = [2, 1, 1, 2]"
    using matmul_shape4 [OF _ V(2), of "softmax sc" 1] sc(2) by (auto simp: shape_of_eq_Inr)
  obtain t where t: "transpose_tensor a 1 2 = Inr t" "shape t = [2, 1, 1, 2]"
    using transpose_12_shape [OF a(2)] by (auto simp: shape_of_eq_Inr)
  obtain w where w: "view t [1, - 1, 2] = Inr w" "shape w = [1, 2, 2]"
    by (simp add: view_def infer_size_def numel_def t(2))
  have o: "shape_of (Linear_forward (W_o example_mha) w) = Inr [1, 2, 2]"
    using Linear_forward_shape3 [OF w(2) io(7)] io(8) by simp
  show ?thesis
    using Q(1) K(1) V(1) sc(1) a(1) t(1) w(1) o
    by (simp add: MultiHeadAttention_forward_def size_dim_def scaled_dot_product_attention_def
        attn_probs_def h(8))
qed

text \<open>
  C10, amended: MultiHeadAttention.forward projects its first argument with W_k, its
  second with W_q and its third with W_v. When the three inputs have the same batch size
  B of at least 1 and last dimension d_model (at least 1, divided by num_heads, at least
  1), and the mask, if any, broadcasts to the score shape: if the first and third
  arguments have the same sequence length, the output has shape (B, Lq, d_model) for the
  sequence length Lq of the second argument; if their sequence lengths differ, the
  forward pass raises.
\<close>

theorem forward_key_query_value:
  assumes "MultiHeadAttention_fields m" "0 < num_heads m" "0 < d_model m"
    and "num_heads m dvd d_model m"
    and "shape x_k = [b, lk, nat (d_model m)]"
    and "shape x_q = [b, lq, nat (d_model m)]"
    and "shape x_v = [b, lv, nat (d_model m)]"
    and "0 < b" and "mask_fits mask' [b, nat (num_heads m), lq, lk]"
  shows "MultiHeadAttention_forward m x_k x_q x_v mask' =
           and_then (project m x_q (W_q m)) (\<lambda>Q_proj.
           and_then (project m x_k (W_k m)) (\<lambda>K_proj.
           and_then (project m x_v (W_v m)) (\<lambda>V_proj.
           and_then (scaled_dot_product_attention m Q_proj K_proj V_proj mask') (\<lambda>attn_output.
           and_then (transpose_tensor attn_output 1 2) (\<lambda>merged.
           and_then (view merged [int b, - 1, d_model m]) (Linear_forward (W_o m)))))))
         \<and> (if lk = lv
            then shape_of (MultiHeadAttention_forward m x_k x_q x_v mask') = Inr [b, lq, nat (d_model m)]
            else MultiHeadAttention_forward m x_k x_q x_v mask' = Inl RuntimeError)"
proof -
  note hd = fields_dvd [OF assms(1,4)]
  have 1: "lk = lv \<Longrightarrow>
      shape_of (MultiHeadAttention_forward m x_k x_q x_v mask') = Inr [b, lq, nat (d_model m)]"
    using forward_shape [OF assms(1-3) hd assms(5) assms(6) _ assms(8) assms(9)] assms(7) by simp
  have 2: "lk \<noteq> lv \<Longrightarrow> MultiHeadAttention_forward m x_k x_q x_v mask' = Inl RuntimeError"
    using forward_key_value_mismatch [OF assms(1-3) hd assms(5) assms(6) assms(7) assms(8) _ assms(9)]
    by simp
  show ?thesis
    using 1 2 by (simp add: MultiHeadAttention_forward_def size_dim_0 [OF assms(6)])
qed

theorem forward_key_query_value_witness:
  "MultiHeadAttention_fields example_mha \<and> num_heads example_mha dvd d_model example_mha
   \<and> shape_of (MultiHeadAttention_forward example_mha
         \<lparr>shape = [1, 3, 2], data = [1, 2, 3, 4, 5, 6]\<rparr>
         \<lparr>shape = [1, 1, 2], data = [1, 0]\<rparr>
         \<lparr>shape = [1, 3, 2], data = [1, 2, 3, 4, 5, 6]\<rparr> None) = Inr [1, 1, 2]
   \<and> MultiHeadAttention_forward example_mha
         \<lparr>shape = [1, 3, 2], data = [1, 2, 3, 4, 5, 6]\<rparr>
         \<lparr>shape = [1, 1, 2], data = [1, 0]\<rparr>
         \<lparr>shape = [1, 1, 2], data = [1, 0]\<rparr> None = Inl RuntimeError"
proof -
  let ?k = "\<lparr>shape = [1, 3, 2], data = [1, 2, 3, 4, 5, 6]\<rparr>"
  let ?q = "\<lparr>shape = [1, 1, 2], data = [1, 0]\<rparr>"
  have h: "0 < num_heads example_mha" "0 < d_model example_mha"
    "num_heads example_mha dvd d_model example_mha"
    by (simp_all add: example_mha_def)
  have n: "nat (d_model example_mha) = 2" "nat (num_heads example_mha) = 1"
    by (simp_all add: example_mha_def)
  have s: "shape ?k = [1, 3, nat (d_model example_mha)]" "shape ?q = [1, 1, nat (d_model example_mha)]"
    by (simp_all add: n)
  have m: "mask_fits None [1, nat (num_heads example_mha), 1, 3]"
    by (simp add: mask_fits_def)
  have 1: "shape_of (MultiHeadAttention_forward example_mha ?k ?q ?k None) = Inr [1, 1, 2]"
    using forward_key_query_value [OF example_mha_fields h s(1) s(2) s(1) _ m, THEN conjunct2]
    by (simp add: n)
  have 2: "MultiHeadAttention_forward example_mha ?k ?q ?q None = Inl RuntimeError"
    using forward_key_query_value [OF example_mha_fields h s(1) s(2) s(2) _ m, THEN conjunct2]
    by simp
  show ?thesis
    using 1 2 h(3) by (simp add: example_mha_fields)
qed

section \<open>EncoderLayer.forward and DecoderLayer.forward\<close>

text \<open>
  C9. EncoderLayer.forward calls its self-attention without a mask: for every input x,
  every two mask arguments (None included) and every draw of the dropout calls (the
  identity of inference mode among them), the result is the same.
\<close>

theorem EncoderLayer_forward_ignores_mask:
  "EncoderLayer_forward enc keeps x m1 = EncoderLayer_forward enc keeps x m2"
  by (simp add: EncoderLayer_forward_def)

text \<open>
  C1. The cross-attention of DecoderLayer.forward is claimed to take its query from the
  normalized self-attention output x1 and its key and value from enc_out, so that its
  output has the target length. The call passes x1 first, where
  MultiHeadAttention.forward expects the key, and enc_out as query and value. Whenever
  the target length of x and the source length of enc_out differ, x1 is computed, the
  cross-attention call raises (the value has the source length, the probabilities have
  one column per target position), and so does the forward pass.
\<close>

theorem DecoderLayer_cross_attention_raises:
  assumes "DecoderLayer_fields dec dm nh" "0 < nh" "0 < dm" "nh dvd dm"
    and "shape x = [b, lt, nat dm]" "shape encoder_output = [b, ls, nat dm]" "0 < b"
    and "lt \<noteq> ls"
  shows "\<exists>x1. DecoderLayer_norm_layer1 dec keeps x None = Inr x1 \<and> shape x1 = [b, lt, nat dm]
           \<and> DecoderLayer_cross_attn_output dec x1 encoder_output None = Inl RuntimeError
           \<and> DecoderLayer_forward dec keeps x encoder_output None None = Inl RuntimeError"
proof -
  have f: "MultiHeadAttention_fields (cross_attn dec)" "d_model (cross_attn dec) = dm"
    "num_heads (cross_attn dec) = nh"
    using assms(1) by (simp_all add: DecoderLayer_fields_def)
  have hd: "head_dim (cross_attn dec) * num_heads (cross_attn dec) = d_model (cross_attn dec)"
    using fields_dvd [OF f(1)] assms(4) f by simp
  obtain x1 where x1: "DecoderLayer_norm_layer1 dec keeps x None = Inr x1"
    "shape x1 = [b, lt, nat dm]"
    using DecoderLayer_norm_layer1_shape [OF assms(1-5) assms(7), of None keeps]
    by (auto simp: shape_of_eq_Inr mask_fits_def)
  have c: "DecoderLayer_cross_attn_output dec x1 encoder_output None = Inl RuntimeError"
    unfolding DecoderLayer_cross_attn_output_def
    using forward_key_value_mismatch [OF f(1) _ _ hd, where x_k = x1 and x_q = encoder_output
        and x_v = encoder_output and b = b and lk = lt and lq = ls and lv = ls and mask' = None]
      assms x1(2) f by (simp add: mask_fits_def)
  then have "DecoderLayer_forward dec keeps x encoder_output None None = Inl RuntimeError"
    by (simp add: DecoderLayer_forward_def x1(1))
  then show ?thesis using x1 c by simp
qed

theorem DecoderLayer_cross_attention_raises_witness:
  "DecoderLayer_fields example_decoder 2 1
   \<and> DecoderLayer_forward example_decoder (\<lambda>call i. True)
        \<lparr>shape = [1, 1, 2], data = [1, 2]\<rparr> \<lparr>shape = [1, 2, 2], data = [1, 2, 3, 4]\<rparr> None None
      = Inl RuntimeError"
  using DecoderLayer_cross_attention_raises [OF example_decoder_fields,
      of "\<lparr>shape = [1, 1, 2], data = [1, 2]\<rparr>" 1 1
         "\<lparr>shape = [1, 2, 2], data = [1, 2, 3, 4]\<rparr>" 2 "\<lambda>call i. True"]
  by (auto simp: example_decoder_fields)

text \<open>
  C4. DecoderLayer.forward is claimed to complete and to return
  layer_norm_3(x2 + dropout(feed_forward(x2))). It returns for no input: its last
  residual step reads the attribute Dropout, which a decoder layer does not have (its
  dropout module is the attribute dropout), so every call that gets that far raises
  AttributeError, and every other call has raised before. With x and enc_out of shape
  (1, 1, 2) and no masks the call gets that far.
\<close>

theorem DecoderLayer_forward_never_returns:
  "DecoderLayer_forward dec keeps x encoder_output self_mask cross_mask \<noteq> Inr y
   \<and> DecoderLayer_forward example_decoder (\<lambda>call i. True)
        \<lparr>shape = [1, 1, 2], data = [1, 2]\<rparr> \<lparr>shape = [1, 1, 2], data = [3, 4]\<rparr> None None
      = Inl (AttributeError ''Dropout'')"
proof -
  have "DecoderLayer_forward dec keeps x encoder_output self_mask cross_mask \<noteq> Inr y"
    by (simp add: DecoderLayer_forward_def getattr_Dropout and_then_def split: sum.splits)
  moreover have "DecoderLayer_forward example_decoder (\<lambda>call i. True)
        \<lparr>shape = [1, 1, 2], data = [1, 2]\<rparr> \<lparr>shape = [1, 1, 2], data = [3, 4]\<rparr> None None
      = Inl (AttributeError ''Dropout'')"
    using DecoderLayer_forward_AttributeError [OF example_decoder_fields,
        of "\<lparr>shape = [1, 1, 2], data = [1, 2]\<rparr>" 1 1
           "\<lparr>shape = [1, 1, 2], data = [3, 4]\<rparr>" None None "\<lambda>call i. True"]
    by (simp add: mask_fits_def)
  ultimately show ?thesis by simp
qed

section \<open>PositionalEncoding\<close>

text \<open>
  C3. The table built by the constructor is claimed to hold
  pe[pos, 2i] = sin(pos / 10000^(2i/d_model)) and the matching cosines, the multiplier of
  pos being 10000^(-2i/d_model). The constructor computes
  exp(arange(0, d_model, 2)) * (-log(10000)/d_model), the exponential of the index alone
  times a negative constant, as the multiplier. For d_model = 8 and max_len = 2 it
  returns a table whose entries at position 1 and columns 0 and 2 are
  sin(-log(10000)/8) and sin(-exp(2) log(10000)/8); the first is negative, while the
  claimed value sin(1 / 10000^0) = sin(1) is positive.
\<close>

theorem PositionalEncoding_init_8_2:
  "\<exists>self. PositionalEncoding_init 8 (1 / 10) 2 = Inr self
      \<and> shape (pe self) = [1, 2, 8]
      \<and> data (pe self) ! (1 * 8 + 2 * 0) = sin (1 * (exp (2 * 0) * (- ln 10000 / 8)))
      \<and> data (pe self) ! (1 * 8 + 2 * 1) = sin (1 * (exp (2 * 1) * (- ln 10000 / 8)))
      \<and> data (pe self) ! (1 * 8 + 2 * 0) < 0
      \<and> 0 < sin (1 / (10000::real) powr (2 * 0 / 8))"
proof -
  have 1: "0 < sin (1::real)"
    using pi_ge_two by (intro sin_gt_zero) simp_all
  have "0 < ln (10000::real) / 8" by simp
  moreover have "ln (10000::real) / 8 < pi" using ln_10000_less pi_ge_two by simp
  ultimately have "0 < sin (ln (10000::real) / 8)" by (rule sin_gt_zero)
  then have 2: "sin (- (ln (10000::real) / 8)) < 0" by simp
  have r: "replicate 2 (replicate 8 (0::real)) = [replicate 8 0, replicate 8 0]"
    by (simp add: numeral_2_eq_2)
  show ?thesis
    using 1 2
    by (simp add: PositionalEncoding_init_def nn_Dropout_def assign_cols_def upt_rec r)
qed




section \<open>Masked attention probabilities\<close>




end
